theory Spec2Isabelle
  imports Complex_Main "HOL-Library.AList" "HOL-Library.Multiset"
begin

section \<open>Data model\<close>

text \<open>
  The scheduling core of the endpoint picker: \<^verbatim>\<open>scheduler_profile.go\<close> (a profile and
  its cycle) and \<^verbatim>\<open>scheduler.go\<close> (the loop over profiles). Plugins are pure functions
  of their arguments; the state they may keep for themselves is outside this development, and
  so are \<^verbatim>\<open>OnResponse\<close> and the default configuration, whose plugins are not among the
  sources.

  A \<^verbatim>\<open>types.Pod\<close> is an interface value holding a pointer; as a map key it is compared by
  the identity of the object, which is what a \<open>pod\<close> stands for. A \<^verbatim>\<open>float64\<close> score is
  idealised as a real number: rounding, infinities and NaN are not modelled.
\<close>

type_synonym pod = nat

text \<open>
  Modelled from the spec: the package \<^verbatim>\<open>types\<close> is not part of the sources at hand. By the
  spec a request carries a model name and a priority class, and a \<^verbatim>\<open>Result\<close> is the pod
  selected by a profile; the fields of a \<^verbatim>\<open>ScoredPod\<close> are those the code sets. The
  scheduling core passes these values on and never looks into a request.
\<close>

record LLMRequest =
  TargetModel :: string
  Critical :: bool

record Result =
  TargetPod :: pod

record ScoredPod =
  Pod :: pod
  Score :: real

text \<open>
  \<^verbatim>\<open>types.SchedulingContext\<close>: the request (a pointer, possibly nil) and the snapshot. The
  logger, the ambient context and the response (nil throughout \<^verbatim>\<open>Schedule\<close>) are left out.
\<close>

record SchedulingContext =
  Req :: "LLMRequest option"
  PodsSnapshot :: "pod list"

subsection \<open>Errors and panics\<close>

text \<open>
  Modelled from the spec: the error kinds of the \<^verbatim>\<open>errutil\<close> package, which is not part of
  the sources at hand; the spec names \<open>Internal\<close>, \<open>Configuration\<close> and \<open>Cancelled\<close>.
  The code under study only ever builds \<^verbatim>\<open>errutil.Error{Code: errutil.Internal, ...}\<close>.
\<close>

datatype errcode = Internal | Configuration | Cancelled

text \<open>
  An error value is either an \<^verbatim>\<open>errutil.Error{Code, Msg}\<close> or the result of a call
  \<^verbatim>\<open>fmt.Errorf(format, args...)\<close>, kept as the call itself: the format string and its
  arguments. An argument formatted with \<^verbatim>\<open>%w\<close> is the wrapped error.
\<close>

datatype error =
    Error errcode string
  | Errorf string "fmtarg list"
and fmtarg =
    ArgString string
  | ArgRequest "LLMRequest option"
  | ArgError error



text \<open>
  The class of an error as a caller sees it with a type assertion on the error value itself:
  only an \<^verbatim>\<open>errutil.Error\<close> has a code.
\<close>

fun Code :: "error \<Rightarrow> errcode option" where
  "Code (Error c m) = Some c"
| "Code (Errorf f as) = None"

text \<open>
  A call either returns or panics (here: a method call through a nil interface value).
\<close>

datatype 'a exec = Returns 'a | Panics

subsection \<open>Metrics emitted\<close>

text \<open>
  Every plugin call is followed by \<^verbatim>\<open>metrics.RecordSchedulerPluginProcessingLatency(type,
  name, ...)\<close>. The list of these records, in order, is the trace of a run: a plugin was
  invoked exactly when its record is in the trace.
\<close>

datatype plugin_type =
    FilterPluginType
  | ScorerPluginType
  | PickerPluginType
  | PostCyclePluginType
  | PostResponsePluginType
  | ProfilePickerType

type_synonym event = "plugin_type \<times> string"

subsection \<open>Plugins\<close>

type_synonym FilterFn = "SchedulingContext \<Rightarrow> pod list \<Rightarrow> pod list"
type_synonym ScoreFn = "SchedulingContext \<Rightarrow> pod list \<Rightarrow> (pod \<times> real) list"
type_synonym PickFn = "SchedulingContext \<Rightarrow> ScoredPod list \<Rightarrow> Result option"
type_synonym PostCycleFn = "SchedulingContext \<Rightarrow> Result option \<Rightarrow> unit"
type_synonym PostResponseFn = "SchedulingContext \<Rightarrow> pod option \<Rightarrow> unit"

text \<open>
  The role interfaces (declared outside the sources at hand; their methods are those the
  code calls), as the values stored in a profile: the plugin's name and the method of the
  role. A \<^verbatim>\<open>map[types.Pod]float64\<close> returned by a scorer is the list of its entries;
  a \<^verbatim>\<open>*types.Result\<close> is an option, \<open>None\<close> for nil.
\<close>

record Filter =
  Filter_Name :: string
  Filter_Filter :: FilterFn

record Picker =
  Picker_Name :: string
  Picker_Pick :: PickFn

record PostCycle =
  PostCycle_Name :: string
  PostCycle_PostCycle :: PostCycleFn

record PostResponse =
  PostResponse_Name :: string
  PostResponse_PostResponse :: PostResponseFn

text \<open>
  A plugin object seen through the roles other than Scorer: a role's method is \<open>Some f\<close>
  exactly when the type assertion to that role's interface succeeds.
\<close>

record Object =
  Name :: string
  Filter_impl :: "FilterFn option"
  Picker_impl :: "PickFn option"
  PostCycle_impl :: "PostCycleFn option"
  PostResponse_impl :: "PostResponseFn option"

text \<open>
  Modelled from the spec: \<^verbatim>\<open>WeightedScorer\<close> is declared outside the sources at hand; the
  spec describes it as a Scorer plugin paired with an integer weight, and the code reads its
  field \<^verbatim>\<open>Scorer\<close> and calls \<^verbatim>\<open>Name()\<close>, \<^verbatim>\<open>Score(ctx, pods)\<close> and \<^verbatim>\<open>Weight()\<close> on it. The
  embedded Scorer is an object together with its \<^verbatim>\<open>Score\<close> method.
\<close>

record WeightedScorer =
  Scorer :: Object
  Scorer_Score :: ScoreFn
  Weight :: int

text \<open>
  The dynamic type of a \<^verbatim>\<open>Plugin\<close> interface value handed to \<^verbatim>\<open>AddPlugins\<close>: a pointer to a
  \<^verbatim>\<open>WeightedScorer\<close>, an object of a type that implements Scorer, or an object of a type that
  does not.
\<close>

datatype Plugin =
    WeightedScorerPtr WeightedScorer
  | ScorerObject Object ScoreFn
  | OtherObject Object

definition as_Filter :: "Object \<Rightarrow> Filter option" where
  "as_Filter plugin = map_option (\<lambda>f. \<lparr>Filter_Name = Name plugin, Filter_Filter = f\<rparr>) (Filter_impl plugin)"

definition as_Picker :: "Object \<Rightarrow> Picker option" where
  "as_Picker plugin = map_option (\<lambda>f. \<lparr>Picker_Name = Name plugin, Picker_Pick = f\<rparr>) (Picker_impl plugin)"

definition as_PostCycle :: "Object \<Rightarrow> PostCycle option" where
  "as_PostCycle plugin =
     map_option (\<lambda>f. \<lparr>PostCycle_Name = Name plugin, PostCycle_PostCycle = f\<rparr>) (PostCycle_impl plugin)"

definition as_PostResponse :: "Object \<Rightarrow> PostResponse option" where
  "as_PostResponse plugin =
     map_option (\<lambda>f. \<lparr>PostResponse_Name = Name plugin, PostResponse_PostResponse = f\<rparr>)
       (PostResponse_impl plugin)"

subsection \<open>Go maps\<close>

text \<open>
  A Go map is the list of its entries, keys distinct. \<open>m[k] = v\<close> is \<^const>\<open>AList.update\<close>
  (the entry is replaced where it stands, or added at the end); reading a missing key of a
  \<^verbatim>\<open>map[K]float64\<close> gives zero.
\<close>

definition get0 :: "('k \<times> real) list \<Rightarrow> 'k \<Rightarrow> real" where
  "get0 m k = (case map_of m k of None \<Rightarrow> 0 | Some v \<Rightarrow> v)"

text \<open>\<open>m[k] += d\<close>\<close>

definition add_to :: "'k \<Rightarrow> real \<Rightarrow> ('k \<times> real) list \<Rightarrow> ('k \<times> real) list" where
  "add_to k d m = AList.update k (get0 m k + d) m"

text \<open>
  The order in which \<^verbatim>\<open>range\<close> visits a map is chosen by the Go runtime, afresh at every
  loop. A run of the model takes that choice as a parameter, a list of numbers: the first
  selects (modulo the length) the entry visited first, the second the next among the
  remaining ones, and so on; where the numbers run out, the remaining entries come in the
  order they are stored.
\<close>

type_synonym range_order = "nat list"

fun go_range :: "range_order \<Rightarrow> 'a list \<Rightarrow> 'a list" where
  "go_range ord [] = []"
| "go_range [] xs = xs"
| "go_range (n # ord) (x # xs) =
     (let k = n mod length (x # xs)
      in (x # xs) ! k # go_range ord (take k (x # xs) @ drop (Suc k) (x # xs)))"

section \<open>SchedulerProfile\<close>

record SchedulerProfile =
  filters :: "Filter list"
  scorers :: "WeightedScorer list"
  picker :: "Picker option"
  postCyclePlugins :: "PostCycle list"
  PostResponsePlugins :: "PostResponse list"

definition NewSchedulerProfile :: SchedulerProfile where
  "NewSchedulerProfile =
     \<lparr>filters = [], scorers = [], picker = None, postCyclePlugins = [], PostResponsePlugins = []\<rparr>"

definition WithFilters :: "SchedulerProfile \<Rightarrow> Filter list \<Rightarrow> SchedulerProfile" where
  "WithFilters p fs = p\<lparr>filters := fs\<rparr>"

definition WithScorers :: "SchedulerProfile \<Rightarrow> WeightedScorer list \<Rightarrow> SchedulerProfile" where
  "WithScorers p ss = p\<lparr>scorers := ss\<rparr>"

text \<open>A \<^verbatim>\<open>Picker\<close> interface value may be nil.\<close>

definition WithPicker :: "SchedulerProfile \<Rightarrow> Picker option \<Rightarrow> SchedulerProfile" where
  "WithPicker p pk = p\<lparr>picker := pk\<rparr>"

definition WithPostCyclePlugins :: "SchedulerProfile \<Rightarrow> PostCycle list \<Rightarrow> SchedulerProfile" where
  "WithPostCyclePlugins p ps = p\<lparr>postCyclePlugins := ps\<rparr>"

subsection \<open>AddPlugins\<close>

definition scorer_without_weight :: "string \<Rightarrow> error" where
  "scorer_without_weight name =
     Errorf ''failed to register scorer '%s' without a weight. follow function documentation to register a scorer''
       [ArgString name]"

definition picker_already_set :: "string \<Rightarrow> string \<Rightarrow> error" where
  "picker_already_set name old =
     Errorf (''failed to set '%s' as picker, already have a registered picker plugin '%s'' @ [CHR 0x27])
       [ArgString name, ArgString old]"

text \<open>
  Lines 90 to 104 of the loop body, on the plugin left after unwrapping. The profile is
  updated in place, so the profile as it stands is returned together with the error.
\<close>

definition register_roles :: "SchedulerProfile \<Rightarrow> Object \<Rightarrow> SchedulerProfile \<times> error option" where
  "register_roles p plugin =
     (let p1 = (case as_Filter plugin of
                  Some flt \<Rightarrow> p\<lparr>filters := filters p @ [flt]\<rparr>
                | None \<Rightarrow> p)
      in case (case as_Picker plugin of
                 Some pk \<Rightarrow>
                   (case picker p1 of
                      Some old \<Rightarrow> Inl (picker_already_set (Picker_Name pk) (Picker_Name old))
                    | None \<Rightarrow> Inr (p1\<lparr>picker := Some pk\<rparr>))
               | None \<Rightarrow> Inr p1) of
           Inl err \<Rightarrow> (p1, Some err)
         | Inr p2 \<Rightarrow>
            (let p3 = (case as_PostCycle plugin of
                         Some postCyclePlugin \<Rightarrow>
                           p2\<lparr>postCyclePlugins := postCyclePlugins p2 @ [postCyclePlugin]\<rparr>
                       | None \<Rightarrow> p2);
                 p4 = (case as_PostResponse plugin of
                         Some postResponsePlugin \<Rightarrow>
                           p3\<lparr>PostResponsePlugins := PostResponsePlugins p3 @ [postResponsePlugin]\<rparr>
                       | None \<Rightarrow> p3)
             in (p4, None)))"

text \<open>One turn of the loop of \<^verbatim>\<open>AddPlugins\<close>.\<close>

fun AddPlugin :: "SchedulerProfile \<Rightarrow> Plugin \<Rightarrow> SchedulerProfile \<times> error option" where
  "AddPlugin p (WeightedScorerPtr weightedScorer) =
     register_roles (p\<lparr>scorers := scorers p @ [weightedScorer]\<rparr>) (Scorer weightedScorer)"
| "AddPlugin p (ScorerObject scorer score) = (p, Some (scorer_without_weight (Name scorer)))"
| "AddPlugin p (OtherObject plugin) = register_roles p plugin"

fun AddPlugins :: "SchedulerProfile \<Rightarrow> Plugin list \<Rightarrow> SchedulerProfile \<times> error option" where
  "AddPlugins p [] = (p, None)"
| "AddPlugins p (plugin # pluginObjects) =
     (case AddPlugin p plugin of
        (p', Some err) \<Rightarrow> (p', Some err)
      | (p', None) \<Rightarrow> AddPlugins p' pluginObjects)"

subsection \<open>RunCycle\<close>

definition no_pods :: error where
  "no_pods = Error Internal ''no pods available for the given request''"

fun run_filters :: "Filter list \<Rightarrow> SchedulingContext \<Rightarrow> pod list \<Rightarrow> pod list \<times> event list" where
  "run_filters [] ctx filteredPods = (filteredPods, [])"
| "run_filters (flt # fs) ctx filteredPods =
     (let filteredPods' = Filter_Filter flt ctx filteredPods;
          ev = (FilterPluginType, Filter_Name flt)
      in if length filteredPods' = 0 then (filteredPods', [ev])
         else (case run_filters fs ctx filteredPods' of (pods, evs) \<Rightarrow> (pods, ev # evs)))"

definition runFilterPlugins :: "SchedulerProfile \<Rightarrow> SchedulingContext \<Rightarrow> pod list \<times> event list" where
  "runFilterPlugins p ctx = run_filters (filters p) ctx (PodsSnapshot ctx)"

text \<open>
  The accumulation of one scorer's scores. Every key of \<open>scores\<close> is visited once and the
  additions go to different keys, so the order of the visit does not show in the map that
  results; the entries are taken in the order they are listed.
\<close>

definition add_scores :: "int \<Rightarrow> (pod \<times> real) list \<Rightarrow> (pod \<times> real) list \<Rightarrow> (pod \<times> real) list" where
  "add_scores weight scores weightedScorePerPod =
     fold (\<lambda>(pod, score) m. add_to pod (score * real_of_int weight) m) scores weightedScorePerPod"

fun run_scorers ::
  "WeightedScorer list \<Rightarrow> SchedulingContext \<Rightarrow> pod list \<Rightarrow> (pod \<times> real) list
     \<Rightarrow> (pod \<times> real) list \<times> event list" where
  "run_scorers [] ctx pods weightedScorePerPod = (weightedScorePerPod, [])"
| "run_scorers (scorer # ss) ctx pods weightedScorePerPod =
     (let scores = Scorer_Score scorer ctx pods;
          ev = (ScorerPluginType, Name (Scorer scorer))
      in case run_scorers ss ctx pods (add_scores (Weight scorer) scores weightedScorePerPod) of
           (m, evs) \<Rightarrow> (m, ev # evs))"

definition runScorerPlugins ::
  "SchedulerProfile \<Rightarrow> SchedulingContext \<Rightarrow> pod list \<Rightarrow> (pod \<times> real) list \<times> event list" where
  "runScorerPlugins p ctx pods =
     run_scorers (scorers p) ctx pods (fold (\<lambda>pod m. AList.update pod 0 m) pods [])"

text \<open>The slice of scored pods built from the map, in the order \<^verbatim>\<open>range\<close> visits it.\<close>

definition scoredPods :: "range_order \<Rightarrow> (pod \<times> real) list \<Rightarrow> ScoredPod list" where
  "scoredPods ord weightedScorePerPod =
     map (\<lambda>(pod, score). \<lparr>Pod = pod, Score = score\<rparr>) (go_range ord weightedScorePerPod)"

definition runPickerPlugin ::
  "range_order \<Rightarrow> SchedulerProfile \<Rightarrow> SchedulingContext \<Rightarrow> (pod \<times> real) list
     \<Rightarrow> Result option exec \<times> event list" where
  "runPickerPlugin ord p ctx weightedScorePerPod =
     (case picker p of
        None \<Rightarrow> (Panics, [])
      | Some pk \<Rightarrow>
          (Returns (Picker_Pick pk ctx (scoredPods ord weightedScorePerPod)),
           [(PickerPluginType, Picker_Name pk)]))"

text \<open>
  A post-cycle plugin returns nothing; what it does to its own state is not modelled, only
  that it is called.
\<close>

definition runPostCyclePlugins :: "SchedulerProfile \<Rightarrow> SchedulingContext \<Rightarrow> Result option \<Rightarrow> event list" where
  "runPostCyclePlugins p ctx res =
     map (\<lambda>plugin. let called = PostCycle_PostCycle plugin ctx res
                  in (PostCyclePluginType, PostCycle_Name plugin))
       (postCyclePlugins p)"

text \<open>
  \<^verbatim>\<open>RunCycle\<close> returns the pair \<^verbatim>\<open>(*types.Result, error)\<close>, either of which may be nil, or
  panics; the second component is the trace.
\<close>

definition RunCycle ::
  "range_order \<Rightarrow> SchedulerProfile \<Rightarrow> SchedulingContext
     \<Rightarrow> (Result option \<times> error option) exec \<times> event list" where
  "RunCycle ord p ctx =
     (case runFilterPlugins p ctx of
        (pods, ev1) \<Rightarrow>
          if length pods = 0 then (Returns (None, Some no_pods), ev1)
          else (case runScorerPlugins p ctx pods of
                  (weightedScorePerPod, ev2) \<Rightarrow>
                    (case runPickerPlugin ord p ctx weightedScorePerPod of
                       (Panics, ev3) \<Rightarrow> (Panics, ev1 @ ev2 @ ev3)
                     | (Returns result, ev3) \<Rightarrow>
                         (Returns (result, None),
                          ev1 @ ev2 @ ev3 @ runPostCyclePlugins p ctx result))))"

section \<open>Scheduler\<close>

text \<open>
  The maps of \<^verbatim>\<open>scheduler.go\<close>: \<^verbatim>\<open>map[string]*framework.SchedulerProfile\<close> (the registered
  profiles, and what the profile picker returns) and \<^verbatim>\<open>map[string]*types.Result\<close> (the
  results so far, whose values may be nil), as lists of entries. Profile pointers are taken
  to be non-nil.
\<close>

type_synonym profile_map = "(string \<times> SchedulerProfile) list"
type_synonym result_map = "(string \<times> Result option) list"

record ProfilePicker =
  ProfilePicker_Name :: string
  ProfilePicker_Pick :: "LLMRequest option \<Rightarrow> profile_map \<Rightarrow> result_map \<Rightarrow> profile_map"

record Scheduler =
  profilePicker :: ProfilePicker
  profiles :: profile_map

text \<open>
  The datastore is shared with other goroutines, which may change it at any time: what
  \<^verbatim>\<open>PodGetAll\<close> returns depends on when it is called. \<open>contents ds n\<close> is the answer to the
  call made after \<open>n\<close> earlier ones, and \<open>reads ds\<close> counts the calls made so far.
\<close>

record Datastore =
  contents :: "nat \<Rightarrow> pod list"
  reads :: nat

definition PodGetAll :: "Datastore \<Rightarrow> pod list \<times> Datastore" where
  "PodGetAll ds = (contents ds (reads ds), ds\<lparr>reads := Suc (reads ds)\<rparr>)"

text \<open>
  Modelled from the spec: \<^verbatim>\<open>types.ToSchedulerPodMetrics\<close> and \<^verbatim>\<open>types.NewSchedulingContext\<close>
  are not part of the sources at hand. By the spec the snapshot is the sequence of pods
  captured once at request entry, each pod isolated from later updates of the datastore: the
  conversion copies the pods one by one, in order, and the context carries the request and
  that snapshot.
\<close>

definition Clone :: "pod \<Rightarrow> pod" where
  "Clone pod = pod"

definition ToSchedulerPodMetrics :: "pod list \<Rightarrow> pod list" where
  "ToSchedulerPodMetrics pods = map Clone pods"

definition NewSchedulingContext :: "LLMRequest option \<Rightarrow> pod list \<Rightarrow> SchedulingContext" where
  "NewSchedulingContext req pods = \<lparr>Req = req, PodsSnapshot = pods\<rparr>"

definition run_all_failed :: "error \<Rightarrow> error" where
  "run_all_failed err =
     Errorf ''failed to run all required scheduling profiles - %w'' [ArgError err]"

definition run_any_failed :: "LLMRequest option \<Rightarrow> error" where
  "run_any_failed req =
     Errorf ''failed to run any SchedulingProfile for the request - %s'' [ArgRequest req]"

text \<open>
  The inner loop of \<^verbatim>\<open>Schedule\<close> over the profiles picked, in the order \<^verbatim>\<open>range\<close> visits
  them, from the results so far: \<open>Inl\<close> is the error of the early return, \<open>Inr\<close> the
  results after the last profile.
\<close>

fun run_profiles ::
  "range_order \<Rightarrow> SchedulingContext \<Rightarrow> profile_map \<Rightarrow> result_map
     \<Rightarrow> (error + result_map) exec \<times> event list" where
  "run_profiles ord sCtx [] profileExecutionResults = (Returns (Inr profileExecutionResults), [])"
| "run_profiles ord sCtx ((name, profile) # rest) profileExecutionResults =
     (case RunCycle ord profile sCtx of
        (Panics, evs) \<Rightarrow> (Panics, evs)
      | (Returns (profileExecutionResult, Some err), evs) \<Rightarrow>
          (Returns (Inl (run_all_failed err)), evs)
      | (Returns (profileExecutionResult, None), evs) \<Rightarrow>
          (case run_profiles ord sCtx rest
                  (AList.update name profileExecutionResult profileExecutionResults) of
             (r, evs') \<Rightarrow> (r, evs @ evs')))"

text \<open>
  The outer loop runs until the profile picker returns an empty map, which it may never do:
  the model counts the turns left, and \<open>None\<close> says that the loop has not ended within
  them.
\<close>

fun schedule_loop ::
  "nat \<Rightarrow> range_order \<Rightarrow> Scheduler \<Rightarrow> SchedulingContext \<Rightarrow> LLMRequest option \<Rightarrow> result_map
     \<Rightarrow> ((error + result_map) exec \<times> event list) option" where
  "schedule_loop 0 ord s sCtx req profileExecutionResults = None"
| "schedule_loop (Suc n) ord s sCtx req profileExecutionResults =
     (let profs = ProfilePicker_Pick (profilePicker s) req (profiles s) profileExecutionResults;
          ev = (ProfilePickerType, ProfilePicker_Name (profilePicker s))
      in if length profs = 0 then Some (Returns (Inr profileExecutionResults), [ev])
         else (case run_profiles ord sCtx (go_range ord profs) profileExecutionResults of
                 (Panics, evs) \<Rightarrow> Some (Panics, ev # evs)
               | (Returns (Inl err), evs) \<Rightarrow> Some (Returns (Inl err), ev # evs)
               | (Returns (Inr results'), evs) \<Rightarrow>
                   (case schedule_loop n ord s sCtx req results' of
                      None \<Rightarrow> None
                    | Some (r, evs') \<Rightarrow> Some (r, ev # evs @ evs'))))"

text \<open>What \<^verbatim>\<open>Schedule\<close> returns after the loop, or on the early return out of it.\<close>

fun after_loop ::
  "LLMRequest option \<Rightarrow> (error + result_map) exec \<Rightarrow> (result_map option \<times> error option) exec" where
  "after_loop req Panics = Panics"
| "after_loop req (Returns (Inl err)) = Returns (None, Some err)"
| "after_loop req (Returns (Inr profileExecutionResults)) =
     (if length profileExecutionResults = 0 then Returns (None, Some (run_any_failed req))
      else Returns (Some profileExecutionResults, None))"

text \<open>
  \<^verbatim>\<open>Schedule\<close>: what the call returns (\<open>None\<close> while the loop has not ended) with its trace,
  and the datastore after the call.
\<close>

definition Schedule ::
  "nat \<Rightarrow> range_order \<Rightarrow> Scheduler \<Rightarrow> Datastore \<Rightarrow> LLMRequest option
     \<Rightarrow> ((result_map option \<times> error option) exec \<times> event list) option \<times> Datastore" where
  "Schedule fuel ord s ds req =
     (case PodGetAll ds of
        (pods, ds') \<Rightarrow>
          (let sCtx = NewSchedulingContext req (ToSchedulerPodMetrics pods)
           in (case schedule_loop fuel ord s sCtx req [] of
                 None \<Rightarrow> None
               | Some (r, evs) \<Rightarrow> Some (after_loop req r, evs),
               ds')))"

section \<open>Notions the properties are stated with\<close>

text \<open>
  The candidate set after a list of filters, each applied to what the one before returned.
\<close>

definition candidates_after :: "SchedulingContext \<Rightarrow> Filter list \<Rightarrow> pod list \<Rightarrow> pod list" where
  "candidates_after ctx fs pods = fold (\<lambda>flt candidates. Filter_Filter flt ctx candidates) fs pods"

text \<open>The trace of a run in which exactly the given filters were invoked, in that order.\<close>

definition filter_events :: "Filter list \<Rightarrow> event list" where
  "filter_events fs = map (\<lambda>flt. (FilterPluginType, Filter_Name flt)) fs"

text \<open>
  The score a returned map gives a pod: the score of its entry, zero when the map has no
  entry for the pod.
\<close>

definition score_for :: "(pod \<times> real) list \<Rightarrow> pod \<Rightarrow> real" where
  "score_for scores pod = sum_list (map snd (filter (\<lambda>e. fst e = pod) scores))"

text \<open>The pods that some scorer of the profile returns a score for.\<close>

definition returned_pods :: "SchedulerProfile \<Rightarrow> SchedulingContext \<Rightarrow> pod list \<Rightarrow> pod set" where
  "returned_pods p ctx pods = (\<Union>s\<in>set (scorers p). fst ` set (Scorer_Score s ctx pods))"


text \<open>
  \<^verbatim>\<open>AddPlugins\<close> as the spec words it, for one plugin. Its error: a plugin that implements
  Scorer and is not a \<^verbatim>\<open>WeightedScorer\<close>, or a plugin (the inner one of a
  \<^verbatim>\<open>WeightedScorer\<close>) that implements Picker when the profile has a picker already.
  \<open>registered\<close> is the profile with the plugin registered to every role it implements;
  \<open>kept\<close> is what a registration cut short by the duplicate picker leaves behind.
\<close>

definition duplicate_picker :: "SchedulerProfile \<Rightarrow> Object \<Rightarrow> error option" where
  "duplicate_picker p plugin =
     (case (Picker_impl plugin, picker p) of
        (Some f, Some old) \<Rightarrow> Some (picker_already_set (Name plugin) (Picker_Name old))
      | _ \<Rightarrow> None)"

fun registration_error :: "SchedulerProfile \<Rightarrow> Plugin \<Rightarrow> error option" where
  "registration_error p (ScorerObject scorer score) = Some (scorer_without_weight (Name scorer))"
| "registration_error p (WeightedScorerPtr ws) = duplicate_picker p (Scorer ws)"
| "registration_error p (OtherObject plugin) = duplicate_picker p plugin"

definition filter_added :: "SchedulerProfile \<Rightarrow> Object \<Rightarrow> SchedulerProfile" where
  "filter_added p plugin =
     p\<lparr>filters := filters p @
          (case Filter_impl plugin of
             Some f \<Rightarrow> [\<lparr>Filter_Name = Name plugin, Filter_Filter = f\<rparr>] | None \<Rightarrow> [])\<rparr>"

definition roles_added :: "SchedulerProfile \<Rightarrow> Object \<Rightarrow> SchedulerProfile" where
  "roles_added p plugin =
     (filter_added p plugin)
       \<lparr>picker :=
          (case Picker_impl plugin of
             Some f \<Rightarrow> Some \<lparr>Picker_Name = Name plugin, Picker_Pick = f\<rparr> | None \<Rightarrow> picker p),
        postCyclePlugins := postCyclePlugins p @
          (case PostCycle_impl plugin of
             Some f \<Rightarrow> [\<lparr>PostCycle_Name = Name plugin, PostCycle_PostCycle = f\<rparr>] | None \<Rightarrow> []),
        PostResponsePlugins := PostResponsePlugins p @
          (case PostResponse_impl plugin of
             Some f \<Rightarrow> [\<lparr>PostResponse_Name = Name plugin, PostResponse_PostResponse = f\<rparr>]
           | None \<Rightarrow> [])\<rparr>"

fun registered :: "SchedulerProfile \<Rightarrow> Plugin \<Rightarrow> SchedulerProfile" where
  "registered p (WeightedScorerPtr ws) = roles_added (p\<lparr>scorers := scorers p @ [ws]\<rparr>) (Scorer ws)"
| "registered p (OtherObject plugin) = roles_added p plugin"
| "registered p (ScorerObject scorer score) = p"

fun kept :: "SchedulerProfile \<Rightarrow> Plugin \<Rightarrow> SchedulerProfile" where
  "kept p (WeightedScorerPtr ws) = filter_added (p\<lparr>scorers := scorers p @ [ws]\<rparr>) (Scorer ws)"
| "kept p (OtherObject plugin) = filter_added p plugin"
| "kept p (ScorerObject scorer score) = p"

text \<open>The object whose roles \<^verbatim>\<open>AddPlugins\<close> looks at.\<close>

fun unwrap :: "Plugin \<Rightarrow> Object" where
  "unwrap (WeightedScorerPtr ws) = Scorer ws"
| "unwrap (OtherObject plugin) = plugin"
| "unwrap (ScorerObject scorer score) = scorer"








section \<open>Example plugins and profiles\<close>

text \<open>Concrete plugins, profiles and contexts on which the properties below are evaluated.\<close>

definition plain :: "string \<Rightarrow> Object" where
  "plain n =
     \<lparr>Name = n, Filter_impl = None, Picker_impl = None, PostCycle_impl = None,
      PostResponse_impl = None\<rparr>"

text \<open>A picker that returns nil whatever it is given.\<close>

definition nil_picker :: Picker where
  "nil_picker = \<lparr>Picker_Name = ''nil-picker'', Picker_Pick = (\<lambda>ctx sps. None)\<rparr>"

text \<open>A picker that takes the first scored pod of the slice.\<close>

definition first_picker :: Picker where
  "first_picker =
     \<lparr>Picker_Name = ''first-picker'',
      Picker_Pick = (\<lambda>ctx sps. case sps of [] \<Rightarrow> None | sp # rest \<Rightarrow> Some \<lparr>TargetPod = Pod sp\<rparr>)\<rparr>"

definition snapshot12 :: SchedulingContext where
  "snapshot12 = \<lparr>Req = None, PodsSnapshot = [1, 2]\<rparr>"

text \<open>A post-cycle plugin that only looks at the result.\<close>

definition observer :: PostCycle where
  "observer = \<lparr>PostCycle_Name = ''observer'', PostCycle_PostCycle = (\<lambda>ctx res. ())\<rparr>"

definition nil_picker_profile :: SchedulerProfile where
  "nil_picker_profile =
     WithPostCyclePlugins (WithPicker NewSchedulerProfile (Some nil_picker)) [observer]"

definition keep_all :: Filter where
  "keep_all = \<lparr>Filter_Name = ''keep-all'', Filter_Filter = (\<lambda>ctx pods. pods)\<rparr>"

definition drop_all :: Filter where
  "drop_all = \<lparr>Filter_Name = ''drop-all'', Filter_Filter = (\<lambda>ctx pods. [])\<rparr>"

text \<open>A scorer that gives every pod it is asked about the score one.\<close>

definition unit_scorer :: WeightedScorer where
  "unit_scorer =
     \<lparr>Scorer = plain ''unit-scorer'',
      Scorer_Score = (\<lambda>ctx pods. map (\<lambda>pod. (pod, 1)) pods),
      Weight = 1\<rparr>"

definition shedding_profile :: SchedulerProfile where
  "shedding_profile =
     \<lparr>filters = [keep_all, drop_all, keep_all], scorers = [unit_scorer],
      picker = Some first_picker, postCyclePlugins = [observer], PostResponsePlugins = []\<rparr>"

definition empty_snapshot :: SchedulingContext where
  "empty_snapshot = \<lparr>Req = None, PodsSnapshot = []\<rparr>"

text \<open>A scorer that scores pod 1 only, although asked about all candidates.\<close>

definition partial_scorer :: WeightedScorer where
  "partial_scorer =
     \<lparr>Scorer = plain ''partial-scorer'', Scorer_Score = (\<lambda>ctx pods. [(1, 3)]), Weight = 2\<rparr>"

text \<open>A scorer that returns a score for pod 9, whatever pods it is asked about.\<close>

definition foreign_scorer :: WeightedScorer where
  "foreign_scorer =
     \<lparr>Scorer = plain ''foreign-scorer'', Scorer_Score = (\<lambda>ctx pods. [(9, 5)]), Weight = 2\<rparr>"

text \<open>A picker that takes the scored pod of highest score, the first of them on a tie.\<close>

fun best :: "ScoredPod \<Rightarrow> ScoredPod list \<Rightarrow> ScoredPod" where
  "best b [] = b"
| "best b (sp # sps) = best (if Score b < Score sp then sp else b) sps"

definition max_picker :: Picker where
  "max_picker =
     \<lparr>Picker_Name = ''max-picker'',
      Picker_Pick = (\<lambda>ctx sps. case sps of [] \<Rightarrow> None
                                | sp # rest \<Rightarrow> Some \<lparr>TargetPod = Pod (best sp rest)\<rparr>)\<rparr>"

definition two_scorer_profile :: SchedulerProfile where
  "two_scorer_profile =
     WithPicker (WithScorers NewSchedulerProfile [unit_scorer, partial_scorer]) (Some max_picker)"

definition foreign_profile :: SchedulerProfile where
  "foreign_profile =
     WithPicker (WithScorers NewSchedulerProfile [foreign_scorer]) (Some max_picker)"

text \<open>Objects that implement several roles, and a scorer handed over without a weight.\<close>

definition gate :: Object where
  "gate =
     \<lparr>Name = ''gate'', Filter_impl = Some (\<lambda>ctx pods. pods), Picker_impl = None,
      PostCycle_impl = Some (\<lambda>ctx res. ()), PostResponse_impl = None\<rparr>"

definition chooser :: Object where
  "chooser =
     \<lparr>Name = ''chooser'', Filter_impl = None, Picker_impl = Some (Picker_Pick first_picker),
      PostCycle_impl = None, PostResponse_impl = None\<rparr>"

definition ranking_chooser :: WeightedScorer where
  "ranking_chooser =
     \<lparr>Scorer = \<lparr>Name = ''ranking-chooser'', Filter_impl = Some (\<lambda>ctx pods. pods),
                Picker_impl = Some (Picker_Pick max_picker), PostCycle_impl = None,
                PostResponse_impl = None\<rparr>,
      Scorer_Score = (\<lambda>ctx pods. map (\<lambda>pod. (pod, 1)) pods),
      Weight = 3\<rparr>"

definition bare_scorer :: Plugin where
  "bare_scorer = ScorerObject (plain ''bare-scorer'') (\<lambda>ctx pods. map (\<lambda>pod. (pod, 1)) pods)"













section \<open>Properties\<close>

subsection \<open>The order of a range loop\<close>

lemma mset_remove_nth:
  assumes "k < length xs"
  shows "mset xs = add_mset (xs ! k) (mset (take k xs @ drop (Suc k) xs))"
proof -
  have "mset xs = mset (take k xs) + mset (drop k xs)"
    by (metis append_take_drop_id mset_append)
  also have "drop k xs = xs ! k # drop (Suc k) xs"
    using assms by (metis Cons_nth_drop_Suc)
  finally show ?thesis by simp
qed

lemma mset_go_range: "mset (go_range ord xs) = mset xs"
proof (induction ord xs rule: go_range.induct)
  case (3 n ord x xs)
  have "n mod length (x # xs) < length (x # xs)" by simp
  from mset_remove_nth [OF this] 3 show ?case by (simp add: Let_def)
qed simp_all

text \<open>Every order of the entries is the order of some visit.\<close>

lemma go_range_any_order:
  "mset ys = mset xs \<Longrightarrow> \<exists>ord. go_range ord xs = ys"
proof (induction ys arbitrary: xs)
  case Nil
  then have "xs = []" by simp
  then show ?case by simp
next
  case (Cons y ys)
  from Cons.prems have "y \<in> set xs"
    by (metis list.set_intros(1) set_mset_mset)
  then obtain k where k: "k < length xs" and y: "xs ! k = y"
    by (auto simp: in_set_conv_nth)
  let ?xs' = "take k xs @ drop (Suc k) xs"
  from mset_remove_nth [OF k] Cons.prems y have "mset ys = mset ?xs'" by simp
  from Cons.IH [OF this] obtain ord where ord: "go_range ord ?xs' = ys" ..
  from k obtain x xs0 where xs: "xs = x # xs0" by (cases xs) auto
  have "go_range (k # ord) xs = y # ys"
    using k y ord unfolding xs by (simp add: Let_def)
  then show ?case ..
qed

lemma set_go_range: "set (go_range ord xs) = set xs"
  by (metis mset_go_range set_mset_mset)


subsection \<open>A picker that returns nil\<close>

text \<open>
  C3, as stated, fails: with two pods in the snapshot, no filter and a picker that returns
  nil, the candidate set is not empty and \<^verbatim>\<open>RunCycle\<close> returns a nil Result together with a
  nil error, after it has handed the nil Result to the post-cycle plugin.
\<close>

theorem RunCycle_nil_pick_counterexample:
  "fst (runFilterPlugins nil_picker_profile snapshot12) = [1, 2] \<and>
   RunCycle [] nil_picker_profile snapshot12 =
     (Returns (None, None), [(PickerPluginType, ''nil-picker''), (PostCyclePluginType, ''observer'')])"
  by (simp add: RunCycle_def runFilterPlugins_def runScorerPlugins_def runPickerPlugin_def
      runPostCyclePlugins_def nil_picker_profile_def WithPicker_def WithPostCyclePlugins_def
      NewSchedulerProfile_def nil_picker_def observer_def snapshot12_def)

text \<open>
  C3, amended: when the post-filter candidate set is not empty and the picker returns nil for
  the scored pods it is handed, \<^verbatim>\<open>RunCycle\<close> does not fail: it runs the post-cycle plugins
  on the nil Result and returns that nil Result together with a nil error.
\<close>

theorem RunCycle_nil_pick:
  assumes "fst (runFilterPlugins p ctx) \<noteq> []"
    and "picker p = Some pk"
    and "Picker_Pick pk ctx
           (scoredPods ord (fst (runScorerPlugins p ctx (fst (runFilterPlugins p ctx))))) = None"
  shows "RunCycle ord p ctx =
           (Returns (None, None),
            snd (runFilterPlugins p ctx) @
            snd (runScorerPlugins p ctx (fst (runFilterPlugins p ctx))) @
            [(PickerPluginType, Picker_Name pk)] @
            runPostCyclePlugins p ctx None)"
  using assms by (auto simp: RunCycle_def runPickerPlugin_def split: prod.splits)

theorem RunCycle_nil_pick_witness:
  "fst (runFilterPlugins nil_picker_profile snapshot12) \<noteq> [] \<and>
   picker nil_picker_profile = Some nil_picker \<and>
   Picker_Pick nil_picker snapshot12
     (scoredPods [1] (fst (runScorerPlugins nil_picker_profile snapshot12
        (fst (runFilterPlugins nil_picker_profile snapshot12))))) = None \<and>
   RunCycle [1] nil_picker_profile snapshot12 =
     (Returns (None, None), [(PickerPluginType, ''nil-picker''), (PostCyclePluginType, ''observer'')])"
proof -
  have a: "fst (runFilterPlugins nil_picker_profile snapshot12) \<noteq> []"
    by (simp add: runFilterPlugins_def nil_picker_profile_def WithPicker_def
        WithPostCyclePlugins_def NewSchedulerProfile_def snapshot12_def)
  have b: "picker nil_picker_profile = Some nil_picker"
    by (simp add: nil_picker_profile_def WithPicker_def WithPostCyclePlugins_def)
  have c: "Picker_Pick nil_picker snapshot12
     (scoredPods [1] (fst (runScorerPlugins nil_picker_profile snapshot12
        (fst (runFilterPlugins nil_picker_profile snapshot12))))) = None"
    by (simp add: nil_picker_def)
  have t: "snd (runFilterPlugins nil_picker_profile snapshot12) @
      snd (runScorerPlugins nil_picker_profile snapshot12
             (fst (runFilterPlugins nil_picker_profile snapshot12))) @
      [(PickerPluginType, Picker_Name nil_picker)] @
      runPostCyclePlugins nil_picker_profile snapshot12 None
      = [(PickerPluginType, ''nil-picker''), (PostCyclePluginType, ''observer'')]"
    by (simp add: runFilterPlugins_def runScorerPlugins_def runPostCyclePlugins_def
        nil_picker_profile_def WithPicker_def WithPostCyclePlugins_def NewSchedulerProfile_def
        nil_picker_def observer_def snapshot12_def)
  from RunCycle_nil_pick [OF a b c] a b c show ?thesis
    unfolding t by simp
qed

subsection \<open>The filter chain and the empty candidate set\<close>

lemma candidates_after_Nil [simp]: "candidates_after ctx [] pods = pods"
  by (simp add: candidates_after_def)

lemma candidates_after_Cons [simp]:
  "candidates_after ctx (g # gs) pods = candidates_after ctx gs (Filter_Filter g ctx pods)"
  by (simp add: candidates_after_def)

lemma prefixes_tail:
  assumes "\<forall>k<length (g # gs). candidates_after ctx (take (Suc k) (g # gs)) pods \<noteq> []"
  shows "Filter_Filter g ctx pods \<noteq> []"
    and "\<forall>k<length gs. candidates_after ctx (take (Suc k) gs) (Filter_Filter g ctx pods) \<noteq> []"
proof -
  from assms have "candidates_after ctx (take (Suc 0) (g # gs)) pods \<noteq> []"
    by (metis length_Cons zero_less_Suc)
  then show "Filter_Filter g ctx pods \<noteq> []" by simp
  show "\<forall>k<length gs. candidates_after ctx (take (Suc k) gs) (Filter_Filter g ctx pods) \<noteq> []"
  proof (intro allI impI)
    fix k assume "k < length gs"
    then have "Suc k < length (g # gs)" by simp
    with assms have "candidates_after ctx (take (Suc (Suc k)) (g # gs)) pods \<noteq> []"
      by blast
    then show "candidates_after ctx (take (Suc k) gs) (Filter_Filter g ctx pods) \<noteq> []"
      by simp
  qed
qed

text \<open>
  While no filter has returned an empty set, the filters are invoked in registration order,
  each on what the one before returned.
\<close>

lemma run_filters_all:
  assumes "\<forall>k<length fs. candidates_after ctx (take (Suc k) fs) pods \<noteq> []"
  shows "run_filters fs ctx pods = (candidates_after ctx fs pods, filter_events fs)"
  using assms
proof (induction fs arbitrary: pods)
  case Nil
  then show ?case by (simp add: filter_events_def)
next
  case (Cons g gs)
  note tl = prefixes_tail [OF Cons.prems]
  from tl(2) have "run_filters gs ctx (Filter_Filter g ctx pods) =
      (candidates_after ctx gs (Filter_Filter g ctx pods), filter_events gs)"
    by (rule Cons.IH)
  with tl(1) show ?case by (simp add: filter_events_def)
qed

text \<open>The first filter to return an empty set ends the chain.\<close>

lemma run_filters_stop:
  assumes "\<forall>k<length fs1. candidates_after ctx (take (Suc k) fs1) pods \<noteq> []"
    and "Filter_Filter f ctx (candidates_after ctx fs1 pods) = []"
  shows "run_filters (fs1 @ f # fs2) ctx pods = ([], filter_events (fs1 @ [f]))"
  using assms
proof (induction fs1 arbitrary: pods)
  case Nil
  then show ?case by (simp add: filter_events_def)
next
  case (Cons g gs)
  note tl = prefixes_tail [OF Cons.prems(1)]
  from Cons.prems(2)
  have "Filter_Filter f ctx (candidates_after ctx gs (Filter_Filter g ctx pods)) = []"
    by simp
  with tl(2)
  have "run_filters (gs @ f # fs2) ctx (Filter_Filter g ctx pods) = ([], filter_events (gs @ [f]))"
    by (rule Cons.IH)
  with tl(1) show ?case by (simp add: filter_events_def)
qed

text \<open>
  C6: the filters run in registration order, each on the candidates the one before left. If
  the filters \<open>fs1\<close> all leave candidates and the next filter \<open>f\<close> returns an empty set,
  \<^verbatim>\<open>RunCycle\<close> fails with the Internal error "no pods available for the given request", and
  its trace holds the invocations of \<open>fs1\<close> and \<open>f\<close> only: no later filter, no scorer, no
  picker and no post-cycle plugin is invoked. On an initially empty snapshot, with filters
  that return pods of their input only, the cycle fails in this way after the first filter,
  if there is one, and with nothing invoked otherwise.
\<close>

theorem RunCycle_no_pods:
  "(filters p = fs1 @ f # fs2 \<and>
    (\<forall>k<length fs1. candidates_after ctx (take (Suc k) fs1) (PodsSnapshot ctx) \<noteq> []) \<and>
    Filter_Filter f ctx (candidates_after ctx fs1 (PodsSnapshot ctx)) = []
    \<longrightarrow> RunCycle ord p ctx =
          (Returns (None, Some (Error Internal ''no pods available for the given request'')),
           filter_events (fs1 @ [f]))) \<and>
   (PodsSnapshot ctx = [] \<and>
    (\<forall>flt\<in>set (filters p). \<forall>pods. set (Filter_Filter flt ctx pods) \<subseteq> set pods)
    \<longrightarrow> RunCycle ord p ctx =
          (Returns (None, Some (Error Internal ''no pods available for the given request'')),
           filter_events (take 1 (filters p))))"
proof -
  have 1: "RunCycle ord p ctx = (Returns (None, Some no_pods), filter_events (fs1 @ [f]))"
    if "filters p = fs1 @ f # fs2"
      and "\<forall>k<length fs1. candidates_after ctx (take (Suc k) fs1) (PodsSnapshot ctx) \<noteq> []"
      and "Filter_Filter f ctx (candidates_after ctx fs1 (PodsSnapshot ctx)) = []"
    for fs1 f fs2
    using that by (simp add: RunCycle_def runFilterPlugins_def run_filters_stop)
  have 2: "RunCycle ord p ctx = (Returns (None, Some no_pods), filter_events (take 1 (filters p)))"
    if e: "PodsSnapshot ctx = []"
      and c: "\<forall>flt\<in>set (filters p). \<forall>pods. set (Filter_Filter flt ctx pods) \<subseteq> set pods"
  proof (cases "filters p")
    case Nil
    with e show ?thesis
      by (simp add: RunCycle_def runFilterPlugins_def filter_events_def)
  next
    case (Cons g gs)
    with c have "\<forall>pods. set (Filter_Filter g ctx pods) \<subseteq> set pods" by simp
    then have "set (Filter_Filter g ctx []) \<subseteq> set []" by blast
    then have "Filter_Filter g ctx (candidates_after ctx [] (PodsSnapshot ctx)) = []"
      using e by simp
    from 1 [of "[]" g gs, OF _ _ this] Cons show ?thesis by simp
  qed
  from 1 2 show ?thesis by (simp add: no_pods_def)
qed

theorem RunCycle_no_pods_witness:
  "RunCycle [] shedding_profile snapshot12 =
     (Returns (None, Some (Error Internal ''no pods available for the given request'')),
      [(FilterPluginType, ''keep-all''), (FilterPluginType, ''drop-all'')]) \<and>
   RunCycle [] shedding_profile empty_snapshot =
     (Returns (None, Some (Error Internal ''no pods available for the given request'')),
      [(FilterPluginType, ''keep-all'')]) \<and>
   RunCycle [] NewSchedulerProfile empty_snapshot =
     (Returns (None, Some (Error Internal ''no pods available for the given request'')), [])"
proof -
  have a: "filters shedding_profile = [keep_all] @ drop_all # [keep_all]"
    by (simp add: shedding_profile_def)
  have b: "\<forall>k<length [keep_all].
      candidates_after snapshot12 (take (Suc k) [keep_all]) (PodsSnapshot snapshot12) \<noteq> []"
    by (simp add: keep_all_def snapshot12_def)
  have c: "Filter_Filter drop_all snapshot12
      (candidates_after snapshot12 [keep_all] (PodsSnapshot snapshot12)) = []"
    by (simp add: drop_all_def)
  have d: "PodsSnapshot empty_snapshot = [] \<and>
      (\<forall>flt\<in>set (filters shedding_profile). \<forall>pods.
         set (Filter_Filter flt empty_snapshot pods) \<subseteq> set pods)"
    by (simp add: shedding_profile_def keep_all_def drop_all_def empty_snapshot_def)
  have e: "PodsSnapshot empty_snapshot = [] \<and>
      (\<forall>flt\<in>set (filters NewSchedulerProfile). \<forall>pods.
         set (Filter_Filter flt empty_snapshot pods) \<subseteq> set pods)"
    by (simp add: NewSchedulerProfile_def empty_snapshot_def)
  have "RunCycle [] shedding_profile snapshot12 =
     (Returns (None, Some (Error Internal ''no pods available for the given request'')),
      filter_events ([keep_all] @ [drop_all]))"
    using RunCycle_no_pods [of shedding_profile "[keep_all]" drop_all "[keep_all]" snapshot12 "[]"]
      a b c by blast
  moreover have "RunCycle [] shedding_profile empty_snapshot =
     (Returns (None, Some (Error Internal ''no pods available for the given request'')),
      filter_events (take 1 (filters shedding_profile)))"
    using RunCycle_no_pods [of shedding_profile "[]" keep_all "[]" empty_snapshot "[]"] d
    by blast
  moreover have "RunCycle [] NewSchedulerProfile empty_snapshot =
     (Returns (None, Some (Error Internal ''no pods available for the given request'')),
      filter_events (take 1 (filters NewSchedulerProfile)))"
    using RunCycle_no_pods [of NewSchedulerProfile "[]" keep_all "[]" empty_snapshot "[]"] e
    by blast
  ultimately show ?thesis
    by (simp add: filter_events_def keep_all_def drop_all_def shedding_profile_def
        NewSchedulerProfile_def)
qed

subsection \<open>The score accumulator\<close>

lemma score_for_map:
  "distinct (map fst scores) \<Longrightarrow> score_for scores pod = get0 scores pod"
proof (induction scores)
  case Nil
  then show ?case by (simp add: score_for_def get0_def)
next
  case (Cons e es)
  show ?case
  proof (cases "fst e = pod")
    case True
    with Cons.prems have "pod \<notin> fst ` set es" by auto
    then have "filter (\<lambda>e. fst e = pod) es = []"
      by (auto simp: filter_empty_conv)
    with True show ?thesis
      by (cases e) (simp add: score_for_def get0_def)
  next
    case False
    with Cons show ?thesis
      by (cases e) (simp add: score_for_def get0_def)
  qed
qed


lemma keys_add_to: "fst ` set (add_to k d m) = insert k (fst ` set m)"
  by (simp add: add_to_def dom_update)



lemma keys_add_scores: "fst ` set (add_scores w scores m) = fst ` set scores \<union> fst ` set m"
  unfolding add_scores_def
proof (induction scores arbitrary: m)
  case Nil
  then show ?case by simp
next
  case (Cons e es)
  obtain q s where e: "e = (q, s)" by (cases e)
  show ?case by (simp add: e Cons.IH keys_add_to)
qed



lemma fst_run_scorers_Cons:
  "fst (run_scorers (s # ss) ctx pods m) =
     fst (run_scorers ss ctx pods (add_scores (Weight s) (Scorer_Score s ctx pods) m))"
  by (simp split: prod.splits)

lemma snd_run_scorers_Cons:
  "snd (run_scorers (s # ss) ctx pods m) =
     (ScorerPluginType, Name (Scorer s)) #
       snd (run_scorers ss ctx pods (add_scores (Weight s) (Scorer_Score s ctx pods) m))"
  by (simp split: prod.splits)

lemma keys_run_scorers:
  "fst ` set (fst (run_scorers ss ctx pods m)) =
     fst ` set m \<union> (\<Union>s\<in>set ss. fst ` set (Scorer_Score s ctx pods))"
proof (induction ss arbitrary: m)
  case Nil
  then show ?case by simp
next
  case (Cons s ss)
  show ?case
    unfolding fst_run_scorers_Cons Cons.IH keys_add_scores by auto
qed



lemma events_run_scorers:
  "snd (run_scorers ss ctx pods m) = map (\<lambda>s. (ScorerPluginType, Name (Scorer s))) ss"
proof (induction ss arbitrary: m)
  case Nil
  then show ?case by simp
next
  case (Cons s ss)
  show ?case
    unfolding snd_run_scorers_Cons Cons.IH by simp
qed

lemma keys_init: "fst ` set (fold (\<lambda>pod m. AList.update pod (0::real) m) pods m) = set pods \<union> fst ` set m"
  by (induction pods arbitrary: m) (auto simp: dom_update)







subsection \<open>The pod picked\<close>

lemma best_member: "best b sps \<in> set (b # sps)"
  by (induction sps arbitrary: b) auto

lemma max_picker_member:
  "Picker_Pick max_picker ctx sps = Some res \<Longrightarrow> TargetPod res \<in> Pod ` set sps"
proof (cases sps)
  case Nil
  assume "Picker_Pick max_picker ctx sps = Some res"
  with Nil show ?thesis by (simp add: max_picker_def)
next
  case (Cons sp rest)
  assume "Picker_Pick max_picker ctx sps = Some res"
  with Cons have "TargetPod res = Pod (best sp rest)" by (auto simp: max_picker_def)
  with best_member [of sp rest] Cons show ?thesis by (metis imageI)
qed

lemma Pod_scoredPods: "Pod ` set (scoredPods ord m) = fst ` set m"
proof -
  have "Pod ` set (scoredPods ord m) = fst ` set (go_range ord m)"
    by (force simp: scoredPods_def)
  then show ?thesis by (simp add: set_go_range)
qed

lemma keys_runScorerPlugins:
  "fst ` set (fst (runScorerPlugins p ctx pods)) = set pods \<union> returned_pods p ctx pods"
  by (simp add: runScorerPlugins_def keys_run_scorers keys_init returned_pods_def)

text \<open>
  C2, as stated, fails: the scorer of this profile returns a score for pod 9, the picker
  takes the scored pod of highest score among those it is given, and the cycle succeeds with
  pod 9 as its target although the candidates after the (empty) filter phase are pods 1 and
  2.
\<close>

theorem RunCycle_foreign_target_counterexample:
  "fst (runFilterPlugins foreign_profile snapshot12) = [1, 2] \<and>
   RunCycle [] foreign_profile snapshot12 =
     (Returns (Some \<lparr>TargetPod = 9\<rparr>, None),
      [(ScorerPluginType, ''foreign-scorer''), (PickerPluginType, ''max-picker'')])"
  by (simp add: RunCycle_def runFilterPlugins_def runScorerPlugins_def runPickerPlugin_def
      runPostCyclePlugins_def scoredPods_def foreign_profile_def WithPicker_def
      WithScorers_def NewSchedulerProfile_def snapshot12_def foreign_scorer_def add_scores_def
      add_to_def get0_def max_picker_def plain_def)

text \<open>
  C2, amended: when the picker picks from the scored pods it is given and, in addition, no
  scorer returns a score for a pod outside the candidates, the scored pods handed to the
  picker are exactly the post-filter candidates, and the pod of the Result of a cycle that
  succeeds is one of them.
\<close>

theorem RunCycle_result_in_candidates:
  assumes run: "RunCycle ord p ctx = (Returns (Some res, err), evs)"
    and pick: "\<forall>pk sps r. picker p = Some pk \<and> Picker_Pick pk ctx sps = Some r
                 \<longrightarrow> TargetPod r \<in> Pod ` set sps"
    and scored: "returned_pods p ctx (fst (runFilterPlugins p ctx)) \<subseteq> set (fst (runFilterPlugins p ctx))"
  shows "Pod ` set (scoredPods ord (fst (runScorerPlugins p ctx (fst (runFilterPlugins p ctx)))))
           = set (fst (runFilterPlugins p ctx)) \<and>
         TargetPod res \<in> set (fst (runFilterPlugins p ctx))"
proof -
  let ?pods = "fst (runFilterPlugins p ctx)"
  let ?sps = "scoredPods ord (fst (runScorerPlugins p ctx ?pods))"
  have handed: "Pod ` set ?sps = set ?pods"
    using scored by (auto simp: Pod_scoredPods keys_runScorerPlugins)
  from run obtain pk where pk: "picker p = Some pk" and res: "Picker_Pick pk ctx ?sps = Some res"
    by (auto simp: RunCycle_def runPickerPlugin_def no_pods_def
        split: prod.splits if_splits option.splits)
  from pick pk res have "TargetPod res \<in> Pod ` set ?sps" by blast
  with handed show ?thesis by simp
qed

theorem RunCycle_result_in_candidates_witness:
  "RunCycle [] two_scorer_profile snapshot12 =
     (Returns (Some \<lparr>TargetPod = 1\<rparr>, None),
      [(ScorerPluginType, ''unit-scorer''), (ScorerPluginType, ''partial-scorer''),
       (PickerPluginType, ''max-picker'')]) \<and>
   Pod ` set (scoredPods [] (fst (runScorerPlugins two_scorer_profile snapshot12
       (fst (runFilterPlugins two_scorer_profile snapshot12)))))
     = set (fst (runFilterPlugins two_scorer_profile snapshot12)) \<and>
   (1::nat) \<in> set (fst (runFilterPlugins two_scorer_profile snapshot12))"
proof -
  have run: "RunCycle [] two_scorer_profile snapshot12 =
     (Returns (Some \<lparr>TargetPod = 1\<rparr>, None),
      [(ScorerPluginType, ''unit-scorer''), (ScorerPluginType, ''partial-scorer''),
       (PickerPluginType, ''max-picker'')])"
    by (simp add: RunCycle_def runFilterPlugins_def runScorerPlugins_def runPickerPlugin_def
        runPostCyclePlugins_def scoredPods_def two_scorer_profile_def WithPicker_def
        WithScorers_def NewSchedulerProfile_def snapshot12_def unit_scorer_def
        partial_scorer_def add_scores_def add_to_def get0_def max_picker_def plain_def)
  have pick: "\<forall>pk sps r. picker two_scorer_profile = Some pk \<and>
      Picker_Pick pk snapshot12 sps = Some r \<longrightarrow> TargetPod r \<in> Pod ` set sps"
    by (auto simp: two_scorer_profile_def WithPicker_def dest: max_picker_member)
  have scored: "returned_pods two_scorer_profile snapshot12
        (fst (runFilterPlugins two_scorer_profile snapshot12))
      \<subseteq> set (fst (runFilterPlugins two_scorer_profile snapshot12))"
    by (simp add: returned_pods_def runFilterPlugins_def two_scorer_profile_def WithPicker_def
        WithScorers_def NewSchedulerProfile_def snapshot12_def unit_scorer_def
        partial_scorer_def)
  from RunCycle_result_in_candidates [OF run pick scored] run show ?thesis by simp
qed

subsection \<open>Registration of plugins\<close>

lemma register_roles_eq:
  "register_roles p plugin =
     (case duplicate_picker p plugin of
        Some e \<Rightarrow> (filter_added p plugin, Some e)
      | None \<Rightarrow> (roles_added p plugin, None))"
  by (cases "Filter_impl plugin"; cases "Picker_impl plugin"; cases "picker p";
      cases "PostCycle_impl plugin"; cases "PostResponse_impl plugin")
     (simp_all add: register_roles_def duplicate_picker_def filter_added_def roles_added_def
        as_Filter_def as_Picker_def as_PostCycle_def as_PostResponse_def)

lemma AddPlugin_eq:
  "AddPlugin p plugin =
     (case registration_error p plugin of
        Some e \<Rightarrow> (kept p plugin, Some e)
      | None \<Rightarrow> (registered p plugin, None))"
  by (cases plugin) (simp_all add: register_roles_eq duplicate_picker_def split: option.splits)

lemma registration_error_Code: "registration_error p plugin = Some e \<Longrightarrow> Code e = None"
  by (cases plugin)
     (auto simp: duplicate_picker_def picker_already_set_def scorer_without_weight_def
        split: option.splits)

lemma AddPlugins_append:
  "AddPlugins p (pre @ post) =
     (case AddPlugins p pre of
        (p', Some e) \<Rightarrow> (p', Some e)
      | (p', None) \<Rightarrow> AddPlugins p' post)"
  by (induction pre arbitrary: p) (auto split: prod.splits option.splits)

lemma AddPlugins_ok:
  "snd (AddPlugins p plugins) = None \<Longrightarrow> fst (AddPlugins p plugins) = foldl registered p plugins"
proof (induction plugins arbitrary: p)
  case Nil
  then show ?case by simp
next
  case (Cons x xs)
  show ?case
  proof (cases "registration_error p x")
    case None
    with Cons.prems have "snd (AddPlugins (registered p x) xs) = None"
      by (simp add: AddPlugin_eq)
    then have "fst (AddPlugins (registered p x) xs) = foldl registered (registered p x) xs"
      by (rule Cons.IH)
    with None show ?thesis by (simp add: AddPlugin_eq)
  next
    case (Some e)
    with Cons.prems show ?thesis by (simp add: AddPlugin_eq)
  qed
qed

lemma AddPlugins_ok_iff:
  "snd (AddPlugins p plugins) = None \<longleftrightarrow>
     (\<forall>k<length plugins. registration_error (foldl registered p (take k plugins)) (plugins ! k) = None)"
proof (induction plugins arbitrary: p)
  case Nil
  then show ?case by simp
next
  case (Cons x xs)
  show ?case
  proof (cases "registration_error p x")
    case None
    have "snd (AddPlugins p (x # xs)) = None \<longleftrightarrow> snd (AddPlugins (registered p x) xs) = None"
      using None by (simp add: AddPlugin_eq)
    also have "\<dots> \<longleftrightarrow> (\<forall>k<length xs.
        registration_error (foldl registered (registered p x) (take k xs)) (xs ! k) = None)"
      by (rule Cons.IH)
    also have "\<dots> \<longleftrightarrow> (\<forall>k<length (x # xs).
        registration_error (foldl registered p (take k (x # xs))) ((x # xs) ! k) = None)"
      using None by (auto simp: All_less_Suc2)
    finally show ?thesis .
  next
    case (Some e)
    then have "snd (AddPlugins p (x # xs)) \<noteq> None" by (simp add: AddPlugin_eq)
    moreover have "\<not> (\<forall>k<length (x # xs).
        registration_error (foldl registered p (take k (x # xs))) ((x # xs) ! k) = None)"
      using Some by (auto intro: exI [of _ 0])
    ultimately show ?thesis by blast
  qed
qed

lemma picker_foldl_registered:
  "picker p = None \<Longrightarrow> \<forall>x\<in>set plugins. Picker_impl (unwrap x) = None
     \<Longrightarrow> picker (foldl registered p plugins) = None"
proof (induction plugins arbitrary: p)
  case Nil
  then show ?case by simp
next
  case (Cons x xs)
  from Cons.prems have "picker (registered p x) = None"
    by (cases x) (simp_all add: roles_added_def filter_added_def)
  with Cons show ?case by simp
qed

text \<open>A profile without picker panics in its cycle as soon as there is a candidate.\<close>

lemma RunCycle_without_picker:
  "picker p = None \<Longrightarrow> fst (runFilterPlugins p ctx) \<noteq> [] \<Longrightarrow> fst (RunCycle ord p ctx) = Panics"
  by (auto simp: RunCycle_def runPickerPlugin_def split: prod.splits)

text \<open>
  C7, as stated, fails: a profile is built without any picker and no error is raised, and
  the error for a scorer without weight is a plain \<^verbatim>\<open>fmt.Errorf\<close> error, which has no
  class.
\<close>

theorem AddPlugins_counterexample:
  "AddPlugins NewSchedulerProfile [OtherObject (plain ''bystander'')] = (NewSchedulerProfile, None) \<and>
   picker NewSchedulerProfile = None \<and>
   map_option Code (snd (AddPlugins NewSchedulerProfile [bare_scorer])) = Some None"
  by (simp add: register_roles_def as_Filter_def as_Picker_def as_PostCycle_def
      as_PostResponse_def plain_def NewSchedulerProfile_def bare_scorer_def
      scorer_without_weight_def)

text \<open>
  C7, amended: \<^verbatim>\<open>AddPlugins\<close> returns an error exactly when it comes to a plugin that
  implements Scorer without being a \<^verbatim>\<open>WeightedScorer\<close>, or to a plugin (unwrapped) that
  implements Picker while the profile has a picker, all plugins before it being registered;
  these errors are plain errors without class. Otherwise it registers each plugin to every
  role it implements, a \<^verbatim>\<open>WeightedScorer\<close> as scorer and its inner plugin to the other
  roles. No step of the construction raises an error for a missing picker: a profile that had
  none and was given none is built without picker; and \<^verbatim>\<open>WithPicker\<close> sets the picker
  whatever was set before.
\<close>

theorem AddPlugins_errors:
  "snd (AddPlugin p plugin) = registration_error p plugin \<and>
   (registration_error p plugin = None \<longrightarrow> fst (AddPlugin p plugin) = registered p plugin) \<and>
   (\<forall>e. registration_error p plugin = Some e \<longrightarrow> Code e = None) \<and>
   (snd (AddPlugins p plugins) = None \<longleftrightarrow>
      (\<forall>k<length plugins.
         registration_error (foldl registered p (take k plugins)) (plugins ! k) = None)) \<and>
   (snd (AddPlugins p plugins) = None \<longrightarrow> fst (AddPlugins p plugins) = foldl registered p plugins) \<and>
   (snd (AddPlugins p plugins) = None \<and> picker p = None \<and>
    (\<forall>x\<in>set plugins. Picker_impl (unwrap x) = None)
      \<longrightarrow> picker (fst (AddPlugins p plugins)) = None) \<and>
   picker (WithPicker p pk) = pk"
proof -
  have 1: "snd (AddPlugin p plugin) = registration_error p plugin"
    by (simp add: AddPlugin_eq split: option.splits)
  have 2: "registration_error p plugin = None \<longrightarrow> fst (AddPlugin p plugin) = registered p plugin"
    by (simp add: AddPlugin_eq)
  have 3: "\<forall>e. registration_error p plugin = Some e \<longrightarrow> Code e = None"
    by (blast dest: registration_error_Code)
  have 4: "snd (AddPlugins p plugins) = None \<and> picker p = None \<and>
    (\<forall>x\<in>set plugins. Picker_impl (unwrap x) = None)
      \<longrightarrow> picker (fst (AddPlugins p plugins)) = None"
    by (simp add: AddPlugins_ok picker_foldl_registered)
  show ?thesis
    using 1 2 3 4 AddPlugins_ok_iff [of p plugins] AddPlugins_ok [of p plugins]
    by (simp add: WithPicker_def)
qed

theorem AddPlugins_errors_witness:
  "snd (AddPlugin NewSchedulerProfile bare_scorer) = Some (scorer_without_weight ''bare-scorer'') \<and>
   Code (scorer_without_weight ''bare-scorer'') = None \<and>
   snd (AddPlugin (WithPicker NewSchedulerProfile (Some first_picker)) (OtherObject chooser))
     = Some (picker_already_set ''chooser'' ''first-picker'') \<and>
   AddPlugins NewSchedulerProfile [OtherObject gate, WeightedScorerPtr unit_scorer]
     = (\<lparr>filters = [\<lparr>Filter_Name = ''gate'', Filter_Filter = (\<lambda>ctx pods. pods)\<rparr>],
         scorers = [unit_scorer], picker = None,
         postCyclePlugins = [\<lparr>PostCycle_Name = ''gate'', PostCycle_PostCycle = (\<lambda>ctx res. ())\<rparr>],
         PostResponsePlugins = []\<rparr>, None)"
proof -
  let ?ps = "[OtherObject gate, WeightedScorerPtr unit_scorer]"
  have e1: "registration_error NewSchedulerProfile bare_scorer
      = Some (scorer_without_weight ''bare-scorer'')"
    by (simp add: bare_scorer_def plain_def)
  have e2: "registration_error (WithPicker NewSchedulerProfile (Some first_picker))
      (OtherObject chooser) = Some (picker_already_set ''chooser'' ''first-picker'')"
    by (simp add: duplicate_picker_def chooser_def WithPicker_def first_picker_def)
  have ok: "\<forall>k<length ?ps.
      registration_error (foldl registered NewSchedulerProfile (take k ?ps)) (?ps ! k) = None"
    by (simp add: All_less_Suc duplicate_picker_def gate_def unit_scorer_def plain_def)
  have np: "picker NewSchedulerProfile = None \<and> (\<forall>x\<in>set ?ps. Picker_impl (unwrap x) = None)"
    by (simp add: NewSchedulerProfile_def gate_def unit_scorer_def plain_def)
  note a = AddPlugins_errors [of NewSchedulerProfile bare_scorer ?ps None]
  note b = AddPlugins_errors [of "WithPicker NewSchedulerProfile (Some first_picker)"
      "OtherObject chooser" "[]" None]
  from a e1 have 1: "snd (AddPlugin NewSchedulerProfile bare_scorer)
      = Some (scorer_without_weight ''bare-scorer'')" by simp
  from a e1 have 2: "Code (scorer_without_weight ''bare-scorer'') = None" by blast
  from b e2 have 3: "snd (AddPlugin (WithPicker NewSchedulerProfile (Some first_picker))
      (OtherObject chooser)) = Some (picker_already_set ''chooser'' ''first-picker'')" by simp
  from a ok have 4: "snd (AddPlugins NewSchedulerProfile ?ps) = None" by blast
  with a have 5: "fst (AddPlugins NewSchedulerProfile ?ps) = foldl registered NewSchedulerProfile ?ps"
    by blast
  from a 4 np have 6: "picker (fst (AddPlugins NewSchedulerProfile ?ps)) = None" by blast
  have "foldl registered NewSchedulerProfile ?ps
     = \<lparr>filters = [\<lparr>Filter_Name = ''gate'', Filter_Filter = (\<lambda>ctx pods. pods)\<rparr>],
         scorers = [unit_scorer], picker = None,
         postCyclePlugins = [\<lparr>PostCycle_Name = ''gate'', PostCycle_PostCycle = (\<lambda>ctx res. ())\<rparr>],
         PostResponsePlugins = []\<rparr>"
    by (simp add: roles_added_def filter_added_def NewSchedulerProfile_def gate_def
        unit_scorer_def plain_def)
  with 4 5 have "AddPlugins NewSchedulerProfile ?ps
     = (\<lparr>filters = [\<lparr>Filter_Name = ''gate'', Filter_Filter = (\<lambda>ctx pods. pods)\<rparr>],
         scorers = [unit_scorer], picker = None,
         postCyclePlugins = [\<lparr>PostCycle_Name = ''gate'', PostCycle_PostCycle = (\<lambda>ctx res. ())\<rparr>],
         PostResponsePlugins = []\<rparr>, None)"
    by (metis prod.collapse)
  with 1 2 3 show ?thesis by simp
qed

text \<open>
  C10: \<^verbatim>\<open>AddPlugins\<close> is not atomic. When the plugins \<open>pre\<close> are registered without error,
  giving the profile \<open>p'\<close>, and the next plugin fails a check, the call returns the error
  with the profile as it stands at that check: the plugins of \<open>pre\<close> registered in all
  their roles, and of the failing plugin what came before the check --- a
  \<^verbatim>\<open>WeightedScorer\<close> whose inner plugin fails the duplicate-picker check stays appended to
  the scorers (and its inner plugin to the filters, if it is one). The plugins after it are
  not looked at.
\<close>

theorem AddPlugins_not_atomic:
  assumes "AddPlugins p pre = (p', None)"
    and "registration_error p' plugin = Some e"
  shows "AddPlugins p (pre @ plugin # post) = (kept p' plugin, Some e) \<and>
         p' = foldl registered p pre \<and>
         (\<forall>ws. plugin = WeightedScorerPtr ws \<longrightarrow>
            scorers (fst (AddPlugins p (pre @ plugin # post))) = scorers p' @ [ws])"
proof -
  from assms(1) have "p' = foldl registered p pre"
    using AddPlugins_ok [of p pre] by simp
  moreover have "AddPlugins p (pre @ plugin # post) = (kept p' plugin, Some e)"
    using assms by (simp add: AddPlugins_append AddPlugin_eq)
  ultimately show ?thesis by (auto simp: filter_added_def)
qed

theorem AddPlugins_not_atomic_witness:
  "AddPlugins NewSchedulerProfile [OtherObject chooser] =
     (NewSchedulerProfile\<lparr>picker := Some \<lparr>Picker_Name = ''chooser'', Picker_Pick = Picker_Pick first_picker\<rparr>\<rparr>, None) \<and>
   snd (AddPlugins NewSchedulerProfile
          [OtherObject chooser, WeightedScorerPtr ranking_chooser, OtherObject gate])
     = Some (picker_already_set ''ranking-chooser'' ''chooser'') \<and>
   scorers (fst (AddPlugins NewSchedulerProfile
          [OtherObject chooser, WeightedScorerPtr ranking_chooser, OtherObject gate]))
     = [ranking_chooser] \<and>
   map Filter_Name (filters (fst (AddPlugins NewSchedulerProfile
          [OtherObject chooser, WeightedScorerPtr ranking_chooser, OtherObject gate])))
     = [''ranking-chooser''] \<and>
   map_option Picker_Name (picker (fst (AddPlugins NewSchedulerProfile
          [OtherObject chooser, WeightedScorerPtr ranking_chooser, OtherObject gate])))
     = Some ''chooser''"
proof -
  let ?p' = "NewSchedulerProfile\<lparr>picker := Some \<lparr>Picker_Name = ''chooser'', Picker_Pick = Picker_Pick first_picker\<rparr>\<rparr>"
  have a: "AddPlugins NewSchedulerProfile [OtherObject chooser] = (?p', None)"
    by (simp add: register_roles_def as_Filter_def as_Picker_def as_PostCycle_def
        as_PostResponse_def chooser_def NewSchedulerProfile_def)
  have b: "registration_error ?p' (WeightedScorerPtr ranking_chooser)
      = Some (picker_already_set ''ranking-chooser'' ''chooser'')"
    by (simp add: duplicate_picker_def ranking_chooser_def)
  have l: "[OtherObject chooser] @ WeightedScorerPtr ranking_chooser # [OtherObject gate]
      = [OtherObject chooser, WeightedScorerPtr ranking_chooser, OtherObject gate]"
    by simp
  from AddPlugins_not_atomic [OF a b, of "[OtherObject gate]"]
  have r: "AddPlugins NewSchedulerProfile
          [OtherObject chooser, WeightedScorerPtr ranking_chooser, OtherObject gate]
      = (kept ?p' (WeightedScorerPtr ranking_chooser),
         Some (picker_already_set ''ranking-chooser'' ''chooser''))"
    unfolding l by (rule conjunct1)
  show ?thesis
    unfolding r a
    by (simp add: filter_added_def NewSchedulerProfile_def ranking_chooser_def)
qed

subsection \<open>The loop over the profiles\<close>







subsection \<open>Schedule\<close>


lemma Schedule_datastore: "snd (Schedule fuel ord s ds req) = snd (PodGetAll ds)"
  by (simp add: Schedule_def Let_def split: prod.splits)


























end
